theory Spec2Isabelle
  imports Main
begin

section \<open>The multi-page Markdown viewer: data model\<close>

text \<open>
  The program is one module, \<^verbatim>\<open>multi_page_md_viewer_react.jsx\<close>, a page of a static
  site: a module-level array \<^verbatim>\<open>manifest\<close> of page descriptors, the two build hooks
  \<^verbatim>\<open>getStaticPaths\<close> and \<^verbatim>\<open>getStaticProps\<close>, and the component \<^verbatim>\<open>LearnPage\<close>.
  JavaScript strings are modelled as \<^typ>\<open>string\<close>; a title, which holds characters
  outside ASCII, is the list of its UTF-16 code units.
\<close>

text \<open>
  A manifest entry \<^verbatim>\<open>{ id, title, file, bg }\<close>. The property \<^verbatim>\<open>bg\<close> may be missing
  from an entry (the component tests it), so it is optional: \<open>None\<close> is \<^verbatim>\<open>undefined\<close>.
\<close>

record descriptor =
  id_d :: string
  title :: "nat list"
  file_d :: string
  bg :: "string option"

text \<open>
  A JavaScript value that is an object, \<^verbatim>\<open>undefined\<close> (what \<^verbatim>\<open>find\<close> and an
  out-of-range array read give) or \<^verbatim>\<open>null\<close> (what the component writes for a missing
  neighbour).
\<close>

datatype 'a js_ref = Undefined | Null | Obj 'a

text \<open>
  What a call can throw. \<open>TypeError\<close> is the error of reading a property of
  \<^verbatim>\<open>undefined\<close>; \<open>SystemError code\<close> is the error of \<^verbatim>\<open>fs.readFileSync\<close>, with
  its code (\<^verbatim>\<open>ENOENT\<close> when the file does not exist: the specification's
  FileNotFoundError; any other code: its ReadError); \<open>LibraryError\<close> is an error
  thrown by the front-matter library while it parses. \<open>NotFoundError\<close> is the error the
  specification names for an unknown page id; no statement of the module throws it.
\<close>

datatype error = TypeError | SystemError string | LibraryError string | NotFoundError

text \<open>
  The state the module runs in: its two module-level constants, the file system as
  \<^verbatim>\<open>readFileSync(path, 'utf8')\<close> sees it, the log of the paths read so far, the
  cache of the front-matter library (for an input text, the \<^verbatim>\<open>content\<close> of the file
  object cached for it), and the state slot that \<^verbatim>\<open>React.useState\<close> keeps for a
  mounted \<^verbatim>\<open>LearnPage\<close> (\<open>None\<close> before the first render).
\<close>

record world =
  contentDir :: string
  manifest :: "descriptor list"
  files :: "string \<Rightarrow> error + string"
  reads :: "string list"
  cache :: "string \<Rightarrow> string option"
  slot :: "int option"

text \<open>The array literal of lines 34 to 38.\<close>

definition manifest_literal :: "descriptor list" where
  "manifest_literal =
    [\<lparr>id_d = ''network'', title = [0x8BA1, 0x7B97, 0x673A, 0x7F51, 0x7EDC],
      file_d = ''network.md'', bg = Some ''/images/network.jpg''\<rparr>,
     \<lparr>id_d = ''os'', title = [0x64CD, 0x4F5C, 0x7CFB, 0x7EDF],
      file_d = ''os.md'', bg = Some ''/images/os.jpg''\<rparr>,
     \<lparr>id_d = ''crypto'', title = [0x5BC6, 0x7801, 0x5B66],
      file_d = ''crypto.md'', bg = Some ''/images/crypto.jpg''\<rparr>]"

text \<open>
  \<^verbatim>\<open>path.join\<close> on segments that need no normalisation (no empty, \<^verbatim>\<open>.\<close> or
  \<^verbatim>\<open>..\<close> segment, no doubled separator), as all segments of the module are: the
  segments joined by the separator.
\<close>

fun path_join :: "string list \<Rightarrow> string" where
  "path_join [] = ''.''"
| "path_join [a] = a"
| "path_join (a # b # bs) = a @ ''/'' @ path_join (b # bs)"

text \<open>
  Loading the module in a process with working directory \<open>cwd\<close> and file system
  \<open>fs\<close>: line 33 computes \<^verbatim>\<open>contentDir\<close>, line 34 binds \<^verbatim>\<open>manifest\<close>; the library's
  cache is empty and no component is mounted.
\<close>

definition load_module :: "string \<Rightarrow> (string \<Rightarrow> error + string) \<Rightarrow> world" where
  "load_module cwd fs =
    \<lparr>contentDir = path_join [cwd, ''public'', ''content''],
     manifest = manifest_literal, files = fs, reads = [], cache = Map.empty, slot = None\<rparr>"

section \<open>Array methods\<close>

text \<open>\<^verbatim>\<open>Array.prototype.find\<close>: the first element satisfying the callback, else \<^verbatim>\<open>undefined\<close>.\<close>

fun find_js :: "('a \<Rightarrow> bool) \<Rightarrow> 'a list \<Rightarrow> 'a js_ref" where
  "find_js P [] = Undefined"
| "find_js P (x # xs) = (if P x then Obj x else find_js P xs)"

text \<open>
  \<^verbatim>\<open>Array.prototype.findIndex\<close>: the loop over the indices from \<open>i\<close> on; the index
  of the first element satisfying the callback, else \<open>-1\<close>.
\<close>

fun findIndex_from :: "('a \<Rightarrow> bool) \<Rightarrow> 'a list \<Rightarrow> int \<Rightarrow> int" where
  "findIndex_from P [] i = - 1"
| "findIndex_from P (x # xs) i = (if P x then i else findIndex_from P xs (i + 1))"

definition findIndex :: "('a \<Rightarrow> bool) \<Rightarrow> 'a list \<Rightarrow> int" where
  "findIndex P xs = findIndex_from P xs 0"

text \<open>An array read \<^verbatim>\<open>xs[i]\<close>: \<^verbatim>\<open>undefined\<close> outside the array.\<close>

definition array_get :: "'a list \<Rightarrow> int \<Rightarrow> 'a js_ref" where
  "array_get xs i = (if 0 \<le> i \<and> i < int (length xs) then Obj (xs ! nat i) else Undefined)"

section \<open>The build hooks\<close>

record params =
  id_p :: string

record path_entry =
  params :: params

record static_paths =
  paths :: "path_entry list"
  fallback :: bool

record props =
  page :: descriptor
  content :: string

text \<open>
  \<^verbatim>\<open>getStaticPaths\<close>, lines 43 to 46. The function is \<^verbatim>\<open>async\<close>; it has no
  statement that throws, and it writes nothing.
\<close>

definition getStaticPaths :: "world \<Rightarrow> static_paths \<times> world" where
  "getStaticPaths s =
    (let paths = map (\<lambda>m. \<lparr>params = \<lparr>id_p = id_d m\<rparr>\<rparr>) (manifest s)
     in (\<lparr>paths = paths, fallback = False\<rparr>, s))"

text \<open>The specification's \<open>listPageIds\<close>: the ids of the paths that \<^verbatim>\<open>getStaticPaths\<close> returns.\<close>

definition listPageIds :: "world \<Rightarrow> string list" where
  "listPageIds s = map (\<lambda>p. id_p (params p)) (paths (fst (getStaticPaths s)))"

text \<open>The specification's \<open>resolve\<close>: the lookup of line 52.\<close>

definition resolve :: "string \<Rightarrow> world \<Rightarrow> descriptor js_ref \<times> world" where
  "resolve i s = (find_js (\<lambda>m. id_d m = i) (manifest s), s)"

text \<open>\<^verbatim>\<open>fs.readFileSync(path, 'utf8')\<close>: the file's text or the error thrown; the read is logged.\<close>

definition readFileSync :: "string \<Rightarrow> world \<Rightarrow> (error + string) \<times> world" where
  "readFileSync p s = (files s p, s\<lparr>reads := reads s @ [p]\<rparr>)"

text \<open>
  A front-matter parser as \<^verbatim>\<open>getStaticProps\<close> calls it: from the text and the library's
  cache to the \<^verbatim>\<open>content\<close> property of the result, or the error thrown, and the cache
  afterwards.
\<close>

type_synonym parser =
  "string \<Rightarrow> (string \<Rightarrow> string option) \<Rightarrow> (error + string) \<times> (string \<Rightarrow> string option)"

text \<open>
  \<^verbatim>\<open>getStaticProps\<close>, lines 51 to 63. The front-matter parser \<^verbatim>\<open>matter\<close> belongs to a
  library outside the repository: it is the parameter \<open>mt\<close>, called on the text read
  and the library's cache as it is at the call.
  A thrown error (the rejection of the \<^verbatim>\<open>async\<close> function's promise) is \<open>Inl\<close>.
  Line 53 reads \<^verbatim>\<open>page.file\<close>, which throws a \<^verbatim>\<open>TypeError\<close> when the lookup of
  line 52 gave \<^verbatim>\<open>undefined\<close>.
\<close>

definition getStaticProps :: "parser \<Rightarrow> params \<Rightarrow> world \<Rightarrow> (error + props) \<times> world" where
  "getStaticProps mt ps s =
    (case resolve (id_p ps) s of
       (Obj pg, s1) \<Rightarrow>
         (let fullPath = path_join [contentDir s1, file_d pg] in
          case readFileSync fullPath s1 of
            (Inl e, s2) \<Rightarrow> (Inl e, s2)
          | (Inr fileContents, s2) \<Rightarrow>
              (case mt fileContents (cache s2) of
                 (Inl e, c) \<Rightarrow> (Inl e, s2\<lparr>cache := c\<rparr>)
               | (Inr body, c) \<Rightarrow> (Inr \<lparr>page = pg, content = body\<rparr>, s2\<lparr>cache := c\<rparr>)))
     | (_, s1) \<Rightarrow> (Inl TypeError, s1))"

section \<open>The page component\<close>

text \<open>
  \<^verbatim>\<open>React.useState(initialState)\<close>: on the first render of a mounted component the
  state is the argument, and React keeps it; on every later render the state is the kept
  value and the argument is ignored. The setter is never called by the module, so only
  the state is returned.
\<close>

definition useState :: "int \<Rightarrow> world \<Rightarrow> int \<times> world" where
  "useState initialState s =
    (case slot s of
       None \<Rightarrow> (initialState, s\<lparr>slot := Some initialState\<rparr>)
     | Some v \<Rightarrow> (v, s))"

text \<open>A style object: its properties in order.\<close>

type_synonym style = "(string \<times> string) list"

text \<open>
  Lines 73 to 79. \<^verbatim>\<open>page.bg\<close> is tested for truthiness: \<^verbatim>\<open>undefined\<close> and the
  empty string are falsy.
\<close>

definition backgroundStyle :: "descriptor \<Rightarrow> style" where
  "backgroundStyle pg =
    (case bg pg of
       Some b \<Rightarrow>
         (if b \<noteq> [] then
            [(''backgroundImage'', ''url('' @ b @ '')''),
             (''backgroundSize'', ''cover''),
             (''backgroundPosition'', ''center'')]
          else [(''background'', ''linear-gradient(135deg, #0f172a, #021124)'')])
     | None \<Rightarrow> [(''background'', ''linear-gradient(135deg, #0f172a, #021124)'')])"

text \<open>
  What \<^verbatim>\<open>LearnPage\<close> computes before it builds its markup, lines 69 to 79: the index,
  the two neighbours and the background style.
\<close>

record view =
  index_v :: int
  prev_v :: "descriptor js_ref"
  next_v :: "descriptor js_ref"
  style_v :: style

definition LearnPage :: "props \<Rightarrow> world \<Rightarrow> view \<times> world" where
  "LearnPage pr s =
    (case useState (findIndex (\<lambda>m. id_d m = id_d (page pr)) (manifest s)) s of
       (index, s1) \<Rightarrow>
         (let nxt = (if index < int (length (manifest s1)) - 1
                     then array_get (manifest s1) (index + 1) else Null);
              prv = (if index > 0 then array_get (manifest s1) (index - 1) else Null)
          in (\<lparr>index_v = index, prev_v = prv, next_v = nxt,
               style_v = backgroundStyle (page pr)\<rparr>, s1)))"

section \<open>The front-matter parser and the build driver\<close>

text \<open>
  Modelled from the spec: the \<^verbatim>\<open>matter\<close> function of the front-matter library, which
  is not in the repository. The specification says that the loader "parses out a metadata
  block (if the file begins with a delimited metadata section) and returns the remaining
  body text unchanged". The delimiter \<open>d\<close> is a parameter, since the specification does
  not fix it. \<open>split_at d s\<close> cuts \<open>s\<close> at the first occurrence of \<open>d\<close>;
  \<open>split_metadata d s\<close> is the metadata block and the body of a text that begins with
  \<open>d\<close> and has a closing \<open>d\<close>.
\<close>

fun split_at :: "string \<Rightarrow> string \<Rightarrow> (string \<times> string) option" where
  "split_at d [] = None"
| "split_at d (c # cs) =
    (if take (length d) (c # cs) = d then Some ([], drop (length d) (c # cs))
     else (case split_at d cs of None \<Rightarrow> None | Some (a, b) \<Rightarrow> Some (c # a, b)))"

definition split_metadata :: "string \<Rightarrow> string \<Rightarrow> (string \<times> string) option" where
  "split_metadata d s =
    (if d \<noteq> [] \<and> take (length d) s = d then
       (case split_at d (drop (length d) s) of
          None \<Rightarrow> None
        | Some (meta, body) \<Rightarrow> Some (d @ meta @ d, body))
     else None)"

definition matter_spec :: "string \<Rightarrow> string \<Rightarrow> error + string" where
  "matter_spec d s =
    Inr (case split_metadata d s of None \<Rightarrow> s | Some (block, body) \<Rightarrow> body)"

text \<open>A parsing function used as a parser that keeps no cache.\<close>

definition uncached :: "(string \<Rightarrow> error + string) \<Rightarrow> parser" where
  "uncached parse t c = (parse t, c)"

text \<open>
  The library's entry point \<^verbatim>\<open>matter(input)\<close>, called with one argument as line 55
  does, around its parsing proper, the parameter \<open>parse\<close>. Called without options the
  library memoizes by input text: the empty text is answered at once; a text that has an
  entry in the cache is answered from the entry, without parsing; any other text gets its
  file object entered in the cache first and parsed in place after. So the entry holds the
  parsed \<^verbatim>\<open>content\<close> once the parse has returned, and the text itself when the parse
  has thrown. The library is not in the repository; this is its behaviour as far as the
  \<^verbatim>\<open>content\<close> of the result goes.
\<close>

definition matter :: "(string \<Rightarrow> error + string) \<Rightarrow> parser" where
  "matter parse input c =
    (if input = [] then (Inr [], c)
     else
       (case c input of
          Some body \<Rightarrow> (Inr body, c)
        | None \<Rightarrow>
            (case parse input of
               Inl e \<Rightarrow> (Inl e, c(input \<mapsto> input))
             | Inr body \<Rightarrow> (Inr body, c(input \<mapsto> body)))))"

text \<open>A cache that holds, for every text it has an entry for, what parsing the text gives.\<close>

definition cache_ok :: "(string \<Rightarrow> error + string) \<Rightarrow> (string \<Rightarrow> string option) \<Rightarrow> bool" where
  "cache_ok parse c \<longleftrightarrow> (\<forall>t body. c t = Some body \<longrightarrow> parse t = Inr body)"

text \<open>
  Modelled from the spec: the static build, which the framework runs and the repository
  does not contain. The specification says: "at build time, the Resolver enumerates all
  page identifiers (one static page per manifest entry). For each identifier, the Loader
  reads and parses the corresponding source file", and "static build either succeeds or
  fails entirely". The build asks \<^verbatim>\<open>getStaticPaths\<close> for the paths and calls
  \<^verbatim>\<open>getStaticProps\<close> on each in turn; the first error ends it.
\<close>

fun build_pages :: "parser \<Rightarrow> params list \<Rightarrow> world \<Rightarrow> (error + props list) \<times> world" where
  "build_pages mt [] s = (Inr [], s)"
| "build_pages mt (ps # rest) s =
    (case getStaticProps mt ps s of
       (Inl e, s1) \<Rightarrow> (Inl e, s1)
     | (Inr pr, s1) \<Rightarrow>
         (case build_pages mt rest s1 of
            (Inl e, s2) \<Rightarrow> (Inl e, s2)
          | (Inr prs, s2) \<Rightarrow> (Inr (pr # prs), s2)))"

definition build :: "parser \<Rightarrow> world \<Rightarrow> (error + props list) \<times> world" where
  "build mt s =
    (case getStaticPaths s of (sp, s1) \<Rightarrow> build_pages mt (map params (paths sp)) s1)"

section \<open>A sample site\<close>

text \<open>
  A file system with the three content files of the manifest under \<^verbatim>\<open>/site\<close>, the
  first with a metadata block delimited by \<^verbatim>\<open>---\<close>, and the module loaded there.
\<close>

definition sample_files :: "string \<Rightarrow> error + string" where
  "sample_files p =
    (if p = ''/site/public/content/network.md'' then Inr ''---title: net---# Network''
     else if p = ''/site/public/content/os.md'' then Inr ''# OS''
     else if p = ''/site/public/content/crypto.md'' then Inr ''# Crypto''
     else Inl (SystemError ''ENOENT''))"

definition sample_world :: world where
  "sample_world = load_module ''/site'' sample_files"

text \<open>The props of two of the sample site's pages, and of a page that the manifest does not list.\<close>

definition network_props :: props where
  "network_props = \<lparr>page = manifest_literal ! 0, content = ''# Network''\<rparr>"

definition os_props :: props where
  "os_props = \<lparr>page = manifest_literal ! 1, content = ''# OS''\<rparr>"

definition unknown_props :: props where
  "unknown_props =
    \<lparr>page = \<lparr>id_d = ''unknown'', title = [], file_d = ''unknown.md'', bg = None\<rparr>,
     content = []\<rparr>"

text \<open>The sample site with a manifest in which two entries share an id.\<close>

definition duplicate_world :: world where
  "duplicate_world = sample_world\<lparr>manifest :=
     [\<lparr>id_d = ''a'', title = [], file_d = ''a.md'', bg = None\<rparr>,
      \<lparr>id_d = ''b'', title = [], file_d = ''first.md'', bg = None\<rparr>,
      \<lparr>id_d = ''b'', title = [], file_d = ''second.md'', bg = None\<rparr>]\<rparr>"

text \<open>The sample site with the content file of the page \<^verbatim>\<open>os\<close> missing.\<close>

definition missing_os_world :: world where
  "missing_os_world = sample_world\<lparr>files :=
     sample_files(''/site/public/content/os.md'' := Inl (SystemError ''ENOENT''))\<rparr>"

text \<open>
  The sample site after the page \<^verbatim>\<open>os\<close> has been loaded once and its content file has
  then been rewritten.
\<close>

definition rewritten_os_world :: world where
  "rewritten_os_world =
     (snd (getStaticProps (matter (matter_spec ''---'')) \<lparr>id_p = ''os''\<rparr> sample_world))
       \<lparr>files := sample_files(''/site/public/content/os.md'' := Inr ''# New'')\<rparr>"

text \<open>
  A parsing function that throws on one text, whose metadata it rejects, and the sample
  site with that text as the content file of the page \<^verbatim>\<open>os\<close>.
\<close>

definition strict_parse :: "string \<Rightarrow> error + string" where
  "strict_parse t =
    (if t = ''---: :---# OS'' then Inl (LibraryError ''YAMLException'')
     else matter_spec ''---'' t)"

definition malformed_os_world :: world where
  "malformed_os_world = sample_world\<lparr>files :=
     sample_files(''/site/public/content/os.md'' := Inr ''---: :---# OS'')\<rparr>"

text \<open>
  The state of a component after it has been mounted with the page \<^verbatim>\<open>network\<close>, with
  the page \<^verbatim>\<open>os\<close>, and with the page \<^verbatim>\<open>crypto\<close>.
\<close>

definition crypto_props :: props where
  "crypto_props = \<lparr>page = manifest_literal ! 2, content = ''# Crypto''\<rparr>"

definition mounted_network :: world where
  "mounted_network = snd (LearnPage network_props sample_world)"

definition mounted_os :: world where
  "mounted_os = snd (LearnPage os_props sample_world)"

definition mounted_crypto :: world where
  "mounted_crypto = snd (LearnPage crypto_props sample_world)"

section \<open>Facts about the array methods\<close>

lemma find_js_not_Null: "find_js P xs \<noteq> Null"
  by (induction xs) auto

lemma find_js_Undefined_iff: "find_js P xs = Undefined \<longleftrightarrow> (\<forall>x \<in> set xs. \<not> P x)"
  by (induction xs) auto

lemma find_js_ObjD: "find_js P xs = Obj d \<Longrightarrow> d \<in> set xs \<and> P d"
  by (induction xs) (auto split: if_splits)

lemma find_js_first:
  "k < length xs \<Longrightarrow> P (xs ! k) \<Longrightarrow> \<forall>j<k. \<not> P (xs ! j) \<Longrightarrow> find_js P xs = Obj (xs ! k)"
proof (induction xs arbitrary: k)
  case Nil
  then show ?case by simp
next
  case (Cons x xs)
  show ?case
  proof (cases k)
    case 0
    with Cons.prems show ?thesis by simp
  next
    case (Suc n)
    with Cons.prems have "\<not> P x" by auto
    moreover have "find_js P xs = Obj (xs ! n)"
      using Cons.prems Suc by (intro Cons.IH) auto
    ultimately show ?thesis using Suc by simp
  qed
qed

lemma findIndex_from_first:
  "k < length xs \<Longrightarrow> P (xs ! k) \<Longrightarrow> \<forall>j<k. \<not> P (xs ! j) \<Longrightarrow> findIndex_from P xs i = i + int k"
proof (induction xs arbitrary: k i)
  case Nil
  then show ?case by simp
next
  case (Cons x xs)
  show ?case
  proof (cases k)
    case 0
    with Cons.prems show ?thesis by simp
  next
    case (Suc n)
    with Cons.prems have "\<not> P x" by auto
    moreover have "findIndex_from P xs (i + 1) = (i + 1) + int n"
      using Cons.prems Suc by (intro Cons.IH) auto
    ultimately show ?thesis using Suc by simp
  qed
qed

lemma findIndex_from_none: "\<forall>x \<in> set xs. \<not> P x \<Longrightarrow> findIndex_from P xs i = - 1"
  by (induction xs arbitrary: i) auto

lemma distinct_ids_first:
  "distinct (map id_d xs) \<Longrightarrow> k < length xs \<Longrightarrow> \<forall>j<k. id_d (xs ! j) \<noteq> id_d (xs ! k)"
  by (auto simp: distinct_conv_nth)

lemma listPageIds_map: "listPageIds s = map id_d (manifest s)"
  by (simp add: listPageIds_def getStaticPaths_def)

section \<open>The page component's state and index\<close>

lemma LearnPage_at_index:
  assumes "slot s = None \<or> slot s = Some idx"
    and "findIndex (\<lambda>m. id_d m = id_d (page pr)) (manifest s) = idx"
  shows "fst (LearnPage pr s) =
    \<lparr>index_v = idx,
     prev_v = (if idx > 0 then array_get (manifest s) (idx - 1) else Null),
     next_v = (if idx < int (length (manifest s)) - 1 then array_get (manifest s) (idx + 1) else Null),
     style_v = backgroundStyle (page pr)\<rparr>"
  using assms by (auto simp: LearnPage_def useState_def Let_def split: option.splits)

lemma LearnPage_snd:
  "snd (LearnPage pr s) = s\<lparr>slot := Some (index_v (fst (LearnPage pr s)))\<rparr>"
  by (cases "slot s") (simp_all add: LearnPage_def useState_def Let_def)

lemma LearnPage_index:
  "index_v (fst (LearnPage pr s)) =
     (case slot s of None \<Rightarrow> findIndex (\<lambda>m. id_d m = id_d (page pr)) (manifest s) | Some v \<Rightarrow> v)"
  by (cases "slot s") (simp_all add: LearnPage_def useState_def Let_def)

lemma sample_manifest:
  "manifest sample_world = manifest_literal" "length manifest_literal = 3"
  "distinct (map id_d manifest_literal)" "slot sample_world = None"
  by (simp_all add: sample_world_def load_module_def manifest_literal_def)

lemma manifest_entries:
  "id_d (manifest_literal ! 0) = ''network''" "id_d (manifest_literal ! 1) = ''os''"
  "id_d (manifest_literal ! 2) = ''crypto''" "id_d (manifest_literal ! Suc 0) = ''os''"
  "file_d (manifest_literal ! 0) = ''network.md''" "file_d (manifest_literal ! 1) = ''os.md''"
  "file_d (manifest_literal ! Suc 0) = ''os.md''" "file_d (manifest_literal ! 2) = ''crypto.md''"
  by (simp_all add: manifest_literal_def)

lemma sample_indices:
  "findIndex (\<lambda>m. id_d m = id_d (page network_props)) manifest_literal = 0"
  "findIndex (\<lambda>m. id_d m = id_d (page os_props)) manifest_literal = 1"
  "findIndex (\<lambda>m. id_d m = id_d (page crypto_props)) manifest_literal = 2"
  "findIndex (\<lambda>m. id_d m = id_d (page unknown_props)) manifest_literal = - 1"
  by (simp_all add: findIndex_def network_props_def os_props_def crypto_props_def
      unknown_props_def manifest_literal_def)

text \<open>What mounting a component on the sample site leaves: the index of its page in the slot.\<close>

lemma mounted_worlds:
  "mounted_network = sample_world\<lparr>slot := Some 0\<rparr>"
  "mounted_os = sample_world\<lparr>slot := Some 1\<rparr>"
  "mounted_crypto = sample_world\<lparr>slot := Some 2\<rparr>"
  by (simp_all add: mounted_network_def mounted_os_def mounted_crypto_def LearnPage_snd
      LearnPage_index sample_manifest sample_indices)

text \<open>The view of a render of the sample site's component whose slot holds an index.\<close>

lemma stale_view:
  "fst (LearnPage pr (sample_world\<lparr>slot := Some v\<rparr>)) =
    \<lparr>index_v = v,
     prev_v = (if v > 0 then array_get manifest_literal (v - 1) else Null),
     next_v = (if v < 2 then array_get manifest_literal (v + 1) else Null),
     style_v = backgroundStyle (page pr)\<rparr>"
  by (simp add: LearnPage_def useState_def Let_def sample_manifest)

text \<open>The view of the mounting render on the sample site.\<close>

lemma fresh_view:
  "fst (LearnPage pr sample_world) =
    \<lparr>index_v = findIndex (\<lambda>m. id_d m = id_d (page pr)) manifest_literal,
     prev_v = (if findIndex (\<lambda>m. id_d m = id_d (page pr)) manifest_literal > 0
               then array_get manifest_literal
                 (findIndex (\<lambda>m. id_d m = id_d (page pr)) manifest_literal - 1)
               else Null),
     next_v = (if findIndex (\<lambda>m. id_d m = id_d (page pr)) manifest_literal < 2
               then array_get manifest_literal
                 (findIndex (\<lambda>m. id_d m = id_d (page pr)) manifest_literal + 1)
               else Null),
     style_v = backgroundStyle (page pr)\<rparr>"
  by (simp add: LearnPage_def useState_def Let_def sample_manifest)

section \<open>Neighbours on the mounting render\<close>

text \<open>
  On the mounting render of \<^verbatim>\<open>LearnPage\<close>, and on a later render of a component mounted
  with the same page, the index is the position of the page in a manifest with unique ids,
  and the neighbours are the adjacent entries, absent at the two ends.
\<close>

lemma mount_neighbors_adjacent:
  assumes "distinct (map id_d (manifest s))"
    and "k < length (manifest s)"
    and "id_d (page pr) = id_d (manifest s ! k)"
    and "slot s = None \<or> slot s = Some (int k)"
  shows "prev_v (fst (LearnPage pr s)) = (if k = 0 then Null else Obj (manifest s ! (k - 1)))
       \<and> next_v (fst (LearnPage pr s)) =
           (if k = length (manifest s) - 1 then Null else Obj (manifest s ! (k + 1)))"
proof -
  have "\<forall>j<k. id_d (manifest s ! j) \<noteq> id_d (page pr)"
    using distinct_ids_first [OF assms(1,2)] assms(3) by simp
  then have idx: "findIndex (\<lambda>m. id_d m = id_d (page pr)) (manifest s) = int k"
    using findIndex_from_first [of k "manifest s" "\<lambda>m. id_d m = id_d (page pr)" 0] assms(2,3)
    by (simp add: findIndex_def)
  have v: "fst (LearnPage pr s) =
    \<lparr>index_v = int k,
     prev_v = (if int k > 0 then array_get (manifest s) (int k - 1) else Null),
     next_v = (if int k < int (length (manifest s)) - 1 then array_get (manifest s) (int k + 1) else Null),
     style_v = backgroundStyle (page pr)\<rparr>"
    by (rule LearnPage_at_index [OF assms(4) idx])
  have p: "prev_v (fst (LearnPage pr s)) = (if k = 0 then Null else Obj (manifest s ! (k - 1)))"
    using assms(2) by (simp add: v array_get_def nat_diff_distrib')
  have n: "next_v (fst (LearnPage pr s)) =
           (if k = length (manifest s) - 1 then Null else Obj (manifest s ! (k + 1)))"
    using assms(2) by (auto simp add: v array_get_def nat_add_distrib)
  show ?thesis using p n by simp
qed

text \<open>
  On the mounting render a page whose id is not in the manifest gets the index \<open>-1\<close>,
  no previous page, and the manifest's first entry as next.
\<close>

lemma mount_unknown_id_neighbors:
  assumes "id_d (page pr) \<notin> set (listPageIds s)" and "slot s = None"
  shows "index_v (fst (LearnPage pr s)) = - 1
       \<and> prev_v (fst (LearnPage pr s)) = Null
       \<and> next_v (fst (LearnPage pr s)) = (case manifest s of [] \<Rightarrow> Null | d # ds \<Rightarrow> Obj d)"
proof -
  have "\<forall>x \<in> set (manifest s). id_d x \<noteq> id_d (page pr)"
  proof
    fix x
    assume "x \<in> set (manifest s)"
    then have "id_d x \<in> set (listPageIds s)" by (simp add: listPageIds_map)
    with assms(1) show "id_d x \<noteq> id_d (page pr)" by metis
  qed
  then have idx: "findIndex (\<lambda>m. id_d m = id_d (page pr)) (manifest s) = - 1"
    by (simp add: findIndex_def findIndex_from_none)
  have v: "fst (LearnPage pr s) =
    \<lparr>index_v = - 1,
     prev_v = (if (- 1 :: int) > 0 then array_get (manifest s) (- 1 - 1) else Null),
     next_v = (if - 1 < int (length (manifest s)) - 1 then array_get (manifest s) (- 1 + 1) else Null),
     style_v = backgroundStyle (page pr)\<rparr>"
    using LearnPage_at_index [of s "- 1" pr] assms(2) idx by simp
  show ?thesis
    by (cases "manifest s") (simp_all add: v array_get_def)
qed

section \<open>Neighbours on a later render\<close>

text \<open>
  Claim C1. For every id of the manifest, previous and next should be the manifest entries
  before and after the page's position, absent at the two ends. Line 69 computes the
  position from the page id at every render but keeps it in \<^verbatim>\<open>React.useState\<close>, so a
  render after the first discards it and uses the index of the mounting render. On the
  sample site a fresh component given the page \<^verbatim>\<open>os\<close>, at position 1, has \<^verbatim>\<open>network\<close>
  before it and \<^verbatim>\<open>crypto\<close> after it; the component mounted with \<^verbatim>\<open>network\<close> and then
  given \<^verbatim>\<open>os\<close> has no previous page and \<^verbatim>\<open>os\<close> itself as next.
\<close>

theorem neighbors_stale_index:
  "slot mounted_network = Some 0 \<and> manifest mounted_network = manifest_literal
   \<and> id_d (page os_props) = id_d (manifest_literal ! 1)
   \<and> prev_v (fst (LearnPage os_props sample_world)) = Obj (manifest_literal ! 0)
   \<and> next_v (fst (LearnPage os_props sample_world)) = Obj (manifest_literal ! 2)
   \<and> prev_v (fst (LearnPage os_props mounted_network)) = Null
   \<and> next_v (fst (LearnPage os_props mounted_network)) = Obj (manifest_literal ! 1)"
  by (simp add: mounted_worlds stale_view fresh_view sample_indices array_get_def
      sample_manifest)
    (simp add: os_props_def)

text \<open>
  Claim C9. A page whose id is not in the manifest should get the index \<open>-1\<close> from the
  lookup, hence no previous page and the manifest's first entry as next. A fresh component
  does so; by the same kept index, the sample site's component mounted with \<^verbatim>\<open>os\<close> and
  then given the unknown page has index 1, \<^verbatim>\<open>network\<close> as previous and \<^verbatim>\<open>crypto\<close> as
  next.
\<close>

theorem unknown_id_stale_index:
  "slot mounted_os = Some 1 \<and> manifest mounted_os = manifest_literal
   \<and> id_d (page unknown_props) \<notin> set (listPageIds mounted_os)
   \<and> index_v (fst (LearnPage unknown_props sample_world)) = - 1
   \<and> prev_v (fst (LearnPage unknown_props sample_world)) = Null
   \<and> next_v (fst (LearnPage unknown_props sample_world)) = Obj (manifest_literal ! 0)
   \<and> index_v (fst (LearnPage unknown_props mounted_os)) = 1
   \<and> prev_v (fst (LearnPage unknown_props mounted_os)) = Obj (manifest_literal ! 0)
   \<and> next_v (fst (LearnPage unknown_props mounted_os)) = Obj (manifest_literal ! 2)"
  by (simp add: mounted_worlds stale_view fresh_view sample_indices array_get_def
      sample_manifest listPageIds_map)
    (simp add: manifest_literal_def unknown_props_def)

text \<open>
  Claim C6. The resolver should be deterministic: two invocations with the same id over
  the same manifest return equal results. \<^verbatim>\<open>getStaticPaths\<close> and the lookup are. The
  neighbours are not, by the same kept index: over the same manifest, a fresh component
  given the page \<^verbatim>\<open>network\<close> has no previous page and \<^verbatim>\<open>os\<close> as next, while the
  component mounted with \<^verbatim>\<open>crypto\<close> and then given \<^verbatim>\<open>network\<close> has \<^verbatim>\<open>os\<close> as previous
  and no next page.
\<close>

theorem neighbors_differ_for_same_id:
  "manifest mounted_crypto = manifest sample_world
   \<and> snd (getStaticPaths sample_world) = sample_world
   \<and> snd (resolve ''network'' sample_world) = sample_world
   \<and> fst (resolve ''network'' mounted_crypto) = fst (resolve ''network'' sample_world)
   \<and> prev_v (fst (LearnPage network_props sample_world)) = Null
   \<and> next_v (fst (LearnPage network_props sample_world)) = Obj (manifest_literal ! 1)
   \<and> prev_v (fst (LearnPage network_props mounted_crypto)) = Obj (manifest_literal ! 1)
   \<and> next_v (fst (LearnPage network_props mounted_crypto)) = Null
   \<and> next_v (fst (LearnPage network_props mounted_crypto))
       \<noteq> next_v (fst (LearnPage network_props sample_world))"
  by (simp add: mounted_worlds stale_view fresh_view sample_indices array_get_def
      sample_manifest getStaticPaths_def resolve_def)

section \<open>The page ids\<close>

text \<open>
  Claim C3. \<open>listPageIds\<close> returns exactly the ids configured in the manifest: one id per
  manifest entry, in manifest order, every configured id and nothing else; it has no
  duplicates when the manifest has none (the manifest's invariant, which the code does
  not check), as is the case for the manifest of the module, whose ids are
  \<^verbatim>\<open>network\<close>, \<^verbatim>\<open>os\<close> and \<^verbatim>\<open>crypto\<close>.
\<close>

theorem listPageIds_exact:
  "listPageIds s = map id_d (manifest s)
   \<and> length (listPageIds s) = length (manifest s)
   \<and> set (listPageIds s) = id_d ` set (manifest s)
   \<and> (distinct (map id_d (manifest s)) \<longrightarrow> distinct (listPageIds s))
   \<and> listPageIds (load_module cwd fs) = [''network'', ''os'', ''crypto'']
   \<and> distinct (listPageIds (load_module cwd fs))"
  by (simp add: listPageIds_map load_module_def manifest_literal_def)

theorem listPageIds_exact_witness:
  "distinct (map id_d (manifest sample_world))
   \<and> listPageIds sample_world = [''network'', ''os'', ''crypto'']
   \<and> length (listPageIds sample_world) = length (manifest sample_world)
   \<and> distinct (listPageIds sample_world)"
  using listPageIds_exact [of sample_world]
  by (simp add: sample_manifest manifest_literal_def)

section \<open>The lookup\<close>

text \<open>
  Claim C10. \<open>resolve\<close> returns the first entry, in manifest order, whose id is the
  requested one: the entry at position \<open>k\<close> when no entry before \<open>k\<close> has that id,
  whatever comes after \<open>k\<close>. In a manifest with two entries of the same id, the one at the
  lower index is returned.
\<close>

theorem resolve_first_match:
  assumes "k < length (manifest s)"
    and "id_d (manifest s ! k) = i"
    and "\<forall>j<k. id_d (manifest s ! j) \<noteq> i"
  shows "fst (resolve i s) = Obj (manifest s ! k)"
  using find_js_first [of k "manifest s" "\<lambda>m. id_d m = i"] assms
  by (simp add: resolve_def)

text \<open>A manifest whose entries at positions 1 and 2 share the id \<^verbatim>\<open>b\<close>: position 1 wins.\<close>

theorem resolve_first_match_witness:
  "1 < length (manifest duplicate_world)
   \<and> id_d (manifest duplicate_world ! 1) = ''b''
   \<and> id_d (manifest duplicate_world ! 2) = ''b''
   \<and> id_d (manifest duplicate_world ! 0) \<noteq> ''b''
   \<and> fst (resolve ''b'' duplicate_world)
       = Obj \<lparr>id_d = ''b'', title = [], file_d = ''first.md'', bg = None\<rparr>"
proof -
  have h1: "1 < length (manifest duplicate_world)" by (simp add: duplicate_world_def)
  have h2: "id_d (manifest duplicate_world ! 1) = ''b''" by (simp add: duplicate_world_def)
  have h3: "\<forall>j<1. id_d (manifest duplicate_world ! j) \<noteq> ''b''"
    by (simp add: duplicate_world_def)
  show ?thesis
    using resolve_first_match [OF h1 h2 h3]
    by (simp add: duplicate_world_def numeral_2_eq_2)
qed

section \<open>The background style\<close>

text \<open>
  Claim C8. When the page's descriptor has no \<^verbatim>\<open>bg\<close>, \<^verbatim>\<open>LearnPage\<close> renders with a
  fixed default style, the gradient of line 79. The component has no failing path, and the
  render reads no file and leaves the file system and the manifest as they were.
\<close>

theorem missing_bg_default:
  assumes "bg (page pr) = None"
  shows "style_v (fst (LearnPage pr s)) = [(''background'', ''linear-gradient(135deg, #0f172a, #021124)'')]
       \<and> reads (snd (LearnPage pr s)) = reads s
       \<and> files (snd (LearnPage pr s)) = files s
       \<and> manifest (snd (LearnPage pr s)) = manifest s"
  using assms
  by (simp add: LearnPage_def useState_def backgroundStyle_def Let_def split: option.splits prod.splits)

theorem missing_bg_default_witness:
  "bg (page unknown_props) = None
   \<and> style_v (fst (LearnPage unknown_props sample_world))
       = [(''background'', ''linear-gradient(135deg, #0f172a, #021124)'')]"
proof -
  have h: "bg (page unknown_props) = None" by (simp add: unknown_props_def)
  show ?thesis using missing_bg_default [OF h, of sample_world] h by simp
qed

section \<open>Facts about the build hooks\<close>

lemma resolve_fst: "fst (resolve i s) = find_js (\<lambda>m. id_d m = i) (manifest s)"
  by (simp add: resolve_def)

lemma getStaticProps_unknown:
  assumes "fst (resolve (id_p ps) s) = Undefined"
  shows "getStaticProps mt ps s = (Inl TypeError, s)"
  using assms by (simp add: getStaticProps_def resolve_def)

lemma getStaticProps_known:
  assumes "fst (resolve (id_p ps) s) = Obj pg"
  shows "getStaticProps mt ps s =
    (case files s (path_join [contentDir s, file_d pg]) of
       Inl e \<Rightarrow> (Inl e, s\<lparr>reads := reads s @ [path_join [contentDir s, file_d pg]]\<rparr>)
     | Inr t \<Rightarrow>
         (case mt t (cache s) of
            (Inl e, c) \<Rightarrow>
              (Inl e, s\<lparr>reads := reads s @ [path_join [contentDir s, file_d pg]], cache := c\<rparr>)
          | (Inr body, c) \<Rightarrow>
              (Inr \<lparr>page = pg, content = body\<rparr>,
               s\<lparr>reads := reads s @ [path_join [contentDir s, file_d pg]], cache := c\<rparr>)))"
  using assms
  by (simp add: getStaticProps_def resolve_def readFileSync_def Let_def
      split: sum.splits prod.splits)

lemma getStaticProps_frame:
  "manifest (snd (getStaticProps mt ps s)) = manifest s
   \<and> files (snd (getStaticProps mt ps s)) = files s
   \<and> contentDir (snd (getStaticProps mt ps s)) = contentDir s
   \<and> slot (snd (getStaticProps mt ps s)) = slot s"
  by (simp add: getStaticProps_def resolve_def readFileSync_def Let_def
      split: sum.splits js_ref.splits prod.splits)

lemma resolve_distinct:
  assumes "distinct (map id_d (manifest s))" and "d \<in> set (manifest s)"
  shows "fst (resolve (id_d d) s) = Obj d"
proof -
  from assms(2) obtain k where k: "k < length (manifest s)" "manifest s ! k = d"
    by (auto simp: in_set_conv_nth)
  have "\<forall>j<k. id_d (manifest s ! j) \<noteq> id_d (manifest s ! k)"
    by (rule distinct_ids_first [OF assms(1) k(1)])
  then show ?thesis
    using find_js_first [of k "manifest s" "\<lambda>m. id_d m = id_d d"] k
    by (simp add: resolve_fst)
qed

lemma build_pages_fails:
  assumes "ps \<in> set pss"
    and "find_js (\<lambda>m. id_d m = id_p ps) (manifest s) = Obj pg"
    and "files s (path_join [contentDir s, file_d pg]) = Inl e"
  shows "\<exists>e'. fst (build_pages mt pss s) = Inl e'"
  using assms
proof (induction pss arbitrary: s)
  case Nil
  then show ?case by simp
next
  case (Cons q rest)
  obtain r s1 where g: "getStaticProps mt q s = (r, s1)" by (cases "getStaticProps mt q s")
  have fr: "manifest s1 = manifest s" "files s1 = files s" "contentDir s1 = contentDir s"
    using getStaticProps_frame [of mt q s] g by simp_all
  show ?case
  proof (cases r)
    case (Inl e1)
    then show ?thesis using g by simp
  next
    case (Inr pr)
    have "ps \<noteq> q"
    proof
      assume "ps = q"
      then have "fst (resolve (id_p q) s) = Obj pg" using Cons.prems(2) by (simp add: resolve_fst)
      from getStaticProps_known [OF this, of mt] Cons.prems(3) g Inr show False by simp
    qed
    with Cons.prems(1) have "ps \<in> set rest" by simp
    from Cons.IH [OF this, of s1] Cons.prems(2,3) fr
    obtain e' where "fst (build_pages mt rest s1) = Inl e'" by auto
    then obtain s2 where "build_pages mt rest s1 = (Inl e', s2)"
      by (cases "build_pages mt rest s1") simp
    then show ?thesis using g Inr by simp
  qed
qed

section \<open>Failures of the loader\<close>

text \<open>
  Claim C5. When the read of the resolved descriptor's content file fails, with the error
  for a missing file (code \<^verbatim>\<open>ENOENT\<close>) or with any other error,
  \<^verbatim>\<open>getStaticProps\<close> fails with that very error after that one read: it does not
  catch the error and does not read again. And when the content file of any entry of the
  manifest (ids being unique) cannot be read, the whole build fails: its result is an
  error and no list of pages, so no page is skipped and nothing partial is produced.
\<close>

theorem load_failure_fatal:
  "(fst (resolve (id_p ps) s) = Obj pg \<and> files s (path_join [contentDir s, file_d pg]) = Inl e
      \<longrightarrow> getStaticProps mt ps s = (Inl e, s\<lparr>reads := reads s @ [path_join [contentDir s, file_d pg]]\<rparr>))
   \<and> (distinct (map id_d (manifest s)) \<and> d \<in> set (manifest s)
        \<and> files s (path_join [contentDir s, file_d d]) = Inl e
      \<longrightarrow> (\<exists>e'. fst (build mt s) = Inl e'))"
proof (intro conjI impI)
  assume a: "fst (resolve (id_p ps) s) = Obj pg \<and> files s (path_join [contentDir s, file_d pg]) = Inl e"
  then show "getStaticProps mt ps s = (Inl e, s\<lparr>reads := reads s @ [path_join [contentDir s, file_d pg]]\<rparr>)"
    using getStaticProps_known [of ps s pg mt] by simp
next
  assume a: "distinct (map id_d (manifest s)) \<and> d \<in> set (manifest s)
        \<and> files s (path_join [contentDir s, file_d d]) = Inl e"
  then have r: "find_js (\<lambda>m. id_d m = id_p \<lparr>id_p = id_d d\<rparr>) (manifest s) = Obj d"
    using resolve_distinct [of s d] by (simp add: resolve_fst)
  have m: "\<lparr>id_p = id_d d\<rparr> \<in> set (map params (paths (fst (getStaticPaths s))))"
    using a by (force simp: getStaticPaths_def)
  from build_pages_fails [OF m r, of e mt] a
  show "\<exists>e'. fst (build mt s) = Inl e'"
    by (simp add: build_def getStaticPaths_def split: prod.splits)
qed

text \<open>The sample site without \<^verbatim>\<open>os.md\<close>: the page fails with \<^verbatim>\<open>ENOENT\<close>, and so does the build.\<close>

theorem load_failure_fatal_witness:
  "fst (resolve (id_p \<lparr>id_p = ''os''\<rparr>) missing_os_world) = Obj (manifest_literal ! 1)
   \<and> files missing_os_world (path_join [contentDir missing_os_world, file_d (manifest_literal ! 1)])
       = Inl (SystemError ''ENOENT'')
   \<and> distinct (map id_d (manifest missing_os_world))
   \<and> manifest_literal ! 1 \<in> set (manifest missing_os_world)
   \<and> getStaticProps (matter (matter_spec ''---'')) \<lparr>id_p = ''os''\<rparr> missing_os_world
       = (Inl (SystemError ''ENOENT''),
          missing_os_world\<lparr>reads := [''/site/public/content/os.md'']\<rparr>)
   \<and> (\<exists>e'. fst (build (matter (matter_spec ''---'')) missing_os_world) = Inl e')"
proof -
  have m: "manifest missing_os_world = manifest_literal" "contentDir missing_os_world = ''/site/public/content''"
    "reads missing_os_world = []"
    by (simp_all add: missing_os_world_def sample_world_def load_module_def)
  have h1: "fst (resolve (id_p \<lparr>id_p = ''os''\<rparr>) missing_os_world) = Obj (manifest_literal ! 1)"
    by (simp add: resolve_fst m) (simp add: manifest_literal_def)
  have h2: "files missing_os_world (path_join [contentDir missing_os_world, file_d (manifest_literal ! 1)])
       = Inl (SystemError ''ENOENT'')"
    by (simp add: m) (simp add: missing_os_world_def manifest_literal_def)
  have h3: "distinct (map id_d (manifest missing_os_world))"
    by (simp add: m sample_manifest)
  have h4: "manifest_literal ! 1 \<in> set (manifest missing_os_world)"
    by (simp add: m) (simp add: manifest_literal_def)
  show ?thesis
    using load_failure_fatal [of "\<lparr>id_p = ''os''\<rparr>" missing_os_world "manifest_literal ! 1"
        "SystemError ''ENOENT''" "matter (matter_spec ''---'')" "manifest_literal ! 1"]
      h1 h2 h3 h4
    by (simp add: m) (simp add: manifest_literal_def)
qed

section \<open>The sample site's build\<close>

lemma sample_world_fields:
  "contentDir sample_world = ''/site/public/content''" "files sample_world = sample_files"
  "reads sample_world = []" "cache sample_world = Map.empty"
  by (simp_all add: sample_world_def load_module_def)

text \<open>The build of the sample site succeeds, with one page per entry of the manifest.\<close>

lemma build_sample_succeeds:
  "fst (build (matter (matter_spec ''---'')) sample_world) =
     Inr [\<lparr>page = manifest_literal ! 0, content = ''# Network''\<rparr>,
          \<lparr>page = manifest_literal ! 1, content = ''# OS''\<rparr>,
          \<lparr>page = manifest_literal ! 2, content = ''# Crypto''\<rparr>]"
  by (simp add: build_def getStaticPaths_def getStaticProps_def resolve_def readFileSync_def
      sample_manifest sample_world_fields manifest_literal_def sample_files_def
      matter_def matter_spec_def split_metadata_def Let_def)

section \<open>The library's cache\<close>

lemma cache_ok_empty: "cache_ok parse Map.empty"
  by (simp add: cache_ok_def)

lemma matter_cache_ok:
  assumes "cache_ok parse c"
  shows "fst (matter parse t c) = (if t = [] then Inr [] else parse t)"
proof (cases "c t")
  case None
  then show ?thesis by (simp add: matter_def split: sum.splits)
next
  case (Some body)
  with assms have "parse t = Inr body" by (simp add: cache_ok_def)
  with Some show ?thesis by (simp add: matter_def)
qed

lemma matter_keeps_cache_ok:
  assumes "cache_ok parse c" and "\<forall>e. parse t \<noteq> Inl e"
  shows "cache_ok parse (snd (matter parse t c))"
proof (cases "t = [] \<or> c t \<noteq> None")
  case True
  then show ?thesis using assms(1) by (auto simp: matter_def)
next
  case False
  from assms(2) obtain body where b: "parse t = Inr body" by (cases "parse t") auto
  with False have "snd (matter parse t c) = c(t \<mapsto> body)" by (simp add: matter_def)
  then show ?thesis using assms(1) b by (simp add: cache_ok_def)
qed

section \<open>The loader reads the file at every call\<close>

text \<open>
  The claim C7 of the specification says that the loader's result is a function of the
  file's contents at the time of the call, with no memoization state. The parser of line
  55 memoizes by input text. On the sample site with a content file for \<^verbatim>\<open>os\<close> on
  which parsing throws, the first call fails with the parser's error; the second call,
  on the same file, unchanged, succeeds with the whole unparsed text as content.
\<close>

theorem load_memoized_counterexample:
  "fst (getStaticProps (matter strict_parse) \<lparr>id_p = ''os''\<rparr> malformed_os_world)
     = Inl (LibraryError ''YAMLException'')
   \<and> files (snd (getStaticProps (matter strict_parse) \<lparr>id_p = ''os''\<rparr> malformed_os_world))
     = files malformed_os_world
   \<and> fst (getStaticProps (matter strict_parse) \<lparr>id_p = ''os''\<rparr>
           (snd (getStaticProps (matter strict_parse) \<lparr>id_p = ''os''\<rparr> malformed_os_world)))
     = Inr \<lparr>page = manifest_literal ! 1, content = ''---: :---# OS''\<rparr>"
proof -
  have w: "manifest malformed_os_world = manifest_literal"
    "contentDir malformed_os_world = ''/site/public/content''"
    "reads malformed_os_world = []" "cache malformed_os_world = Map.empty"
    "files malformed_os_world ''/site/public/content/os.md'' = Inr ''---: :---# OS''"
    by (simp_all add: malformed_os_world_def sample_manifest sample_world_fields)
  have r: "fst (resolve (id_p \<lparr>id_p = ''os''\<rparr>) malformed_os_world) = Obj (manifest_literal ! 1)"
    by (simp add: resolve_fst w) (simp add: manifest_literal_def)
  have m: "matter strict_parse ''---: :---# OS'' Map.empty
      = (Inl (LibraryError ''YAMLException''), [''---: :---# OS'' \<mapsto> ''---: :---# OS''])"
    by (simp add: matter_def strict_parse_def)
  have s1: "getStaticProps (matter strict_parse) \<lparr>id_p = ''os''\<rparr> malformed_os_world
      = (Inl (LibraryError ''YAMLException''),
         malformed_os_world\<lparr>reads := [''/site/public/content/os.md''],
           cache := [''---: :---# OS'' \<mapsto> ''---: :---# OS'']\<rparr>)"
    by (simp add: getStaticProps_known [OF r] w manifest_entries m)
  let ?w = "malformed_os_world\<lparr>reads := [''/site/public/content/os.md''],
           cache := [''---: :---# OS'' \<mapsto> ''---: :---# OS'']\<rparr>"
  have r2: "fst (resolve (id_p \<lparr>id_p = ''os''\<rparr>) ?w) = Obj (manifest_literal ! 1)"
    using r by (simp add: resolve_fst)
  have m2: "matter strict_parse ''---: :---# OS'' [''---: :---# OS'' \<mapsto> ''---: :---# OS'']
      = (Inr ''---: :---# OS'', [''---: :---# OS'' \<mapsto> ''---: :---# OS''])"
    by (simp add: matter_def)
  have s2: "fst (getStaticProps (matter strict_parse) \<lparr>id_p = ''os''\<rparr> ?w)
      = Inr \<lparr>page = manifest_literal ! 1, content = ''---: :---# OS''\<rparr>"
    by (simp add: getStaticProps_known [OF r2] w manifest_entries m2)
  show ?thesis
    by (simp only: s1 s2 fst_conv snd_conv) simp
qed

text \<open>
  Claim C7, amended. \<^verbatim>\<open>getStaticProps\<close> keeps no cache of its own and reads the file at
  every call: in any state, whatever calls came before, a call for an id that resolves
  reads the descriptor's file once (the read is appended to the log), leaves the file
  system as it is, and hands the text read at that call to the parser; its result is the
  parser's answer for that text. The parser of line 55 keeps a cache keyed by the text;
  as long as the cache holds only what parsing gives, the result is determined by what the
  file system holds for the path at the time of the call, and a call whose parse does not
  throw leaves such a cache.
\<close>

theorem load_reads_each_call:
  assumes "fst (resolve (id_p ps) s) = Obj pg"
  shows "reads (snd (getStaticProps mt ps s)) = reads s @ [path_join [contentDir s, file_d pg]]
       \<and> files (snd (getStaticProps mt ps s)) = files s
       \<and> fst (getStaticProps mt ps s) =
           (case files s (path_join [contentDir s, file_d pg]) of
              Inl e \<Rightarrow> Inl e
            | Inr t \<Rightarrow>
                (case fst (mt t (cache s)) of
                   Inl e \<Rightarrow> Inl e
                 | Inr body \<Rightarrow> Inr \<lparr>page = pg, content = body\<rparr>))
       \<and> (cache_ok parse (cache s) \<longrightarrow>
            fst (getStaticProps (matter parse) ps s) =
              (case files s (path_join [contentDir s, file_d pg]) of
                 Inl e \<Rightarrow> Inl e
               | Inr t \<Rightarrow>
                   (if t = [] then Inr \<lparr>page = pg, content = []\<rparr>
                    else (case parse t of
                            Inl e \<Rightarrow> Inl e
                          | Inr body \<Rightarrow> Inr \<lparr>page = pg, content = body\<rparr>))))
       \<and> (cache_ok parse (cache s)
            \<and> (\<forall>t e. files s (path_join [contentDir s, file_d pg]) = Inr t \<longrightarrow> parse t \<noteq> Inl e)
          \<longrightarrow> cache_ok parse (cache (snd (getStaticProps (matter parse) ps s))))"
proof -
  let ?p = "path_join [contentDir s, file_d pg]"
  note k = getStaticProps_known [OF assms]
  have a: "reads (snd (getStaticProps mt ps s)) = reads s @ [?p]"
    by (simp add: k split: sum.splits prod.splits)
  have b: "files (snd (getStaticProps mt ps s)) = files s"
    by (simp add: getStaticProps_frame)
  have c: "fst (getStaticProps mt ps s) =
           (case files s ?p of
              Inl e \<Rightarrow> Inl e
            | Inr t \<Rightarrow>
                (case fst (mt t (cache s)) of
                   Inl e \<Rightarrow> Inl e
                 | Inr body \<Rightarrow> Inr \<lparr>page = pg, content = body\<rparr>))"
    by (simp add: k split: sum.splits prod.splits)
  have d: "cache_ok parse (cache s) \<longrightarrow>
            fst (getStaticProps (matter parse) ps s) =
              (case files s ?p of
                 Inl e \<Rightarrow> Inl e
               | Inr t \<Rightarrow>
                   (if t = [] then Inr \<lparr>page = pg, content = []\<rparr>
                    else (case parse t of
                            Inl e \<Rightarrow> Inl e
                          | Inr body \<Rightarrow> Inr \<lparr>page = pg, content = body\<rparr>)))"
  proof
    assume ok: "cache_ok parse (cache s)"
    show "fst (getStaticProps (matter parse) ps s) =
              (case files s ?p of
                 Inl e \<Rightarrow> Inl e
               | Inr t \<Rightarrow>
                   (if t = [] then Inr \<lparr>page = pg, content = []\<rparr>
                    else (case parse t of
                            Inl e \<Rightarrow> Inl e
                          | Inr body \<Rightarrow> Inr \<lparr>page = pg, content = body\<rparr>)))"
    proof (cases "files s ?p")
      case (Inl e)
      then show ?thesis by (simp add: k)
    next
      case (Inr t)
      obtain r c' where m: "matter parse t (cache s) = (r, c')"
        by (cases "matter parse t (cache s)")
      with matter_cache_ok [OF ok, of t] have r: "r = (if t = [] then Inr [] else parse t)"
        by simp
      show ?thesis
        using Inr m r by (simp add: k split: sum.splits)
    qed
  qed
  have e: "cache_ok parse (cache s)
            \<and> (\<forall>t e. files s ?p = Inr t \<longrightarrow> parse t \<noteq> Inl e)
          \<longrightarrow> cache_ok parse (cache (snd (getStaticProps (matter parse) ps s)))"
  proof
    assume h: "cache_ok parse (cache s) \<and> (\<forall>t e. files s ?p = Inr t \<longrightarrow> parse t \<noteq> Inl e)"
    show "cache_ok parse (cache (snd (getStaticProps (matter parse) ps s)))"
    proof (cases "files s ?p")
      case (Inl e)
      then show ?thesis using h by (simp add: k)
    next
      case (Inr t)
      with h have nt: "\<forall>e. parse t \<noteq> Inl e" by simp
      obtain r c' where m: "matter parse t (cache s) = (r, c')"
        by (cases "matter parse t (cache s)")
      with matter_keeps_cache_ok [of parse "cache s" t] h nt have "cache_ok parse c'"
        by simp
      then show ?thesis
        using Inr m by (simp add: k split: sum.splits)
    qed
  qed
  show ?thesis
    using a b c d e by (intro conjI)
qed

text \<open>
  The page \<^verbatim>\<open>os\<close> of the sample site loaded twice, its file rewritten in between: the
  second call reads the file again and returns the new text.
\<close>

theorem load_reads_each_call_witness:
  "fst (resolve (id_p \<lparr>id_p = ''os''\<rparr>) rewritten_os_world) = Obj (manifest_literal ! 1)
   \<and> cache_ok (matter_spec ''---'') (cache rewritten_os_world)
   \<and> fst (getStaticProps (matter (matter_spec ''---'')) \<lparr>id_p = ''os''\<rparr> sample_world)
       = Inr \<lparr>page = manifest_literal ! 1, content = ''# OS''\<rparr>
   \<and> fst (getStaticProps (matter (matter_spec ''---'')) \<lparr>id_p = ''os''\<rparr> rewritten_os_world)
       = Inr \<lparr>page = manifest_literal ! 1, content = ''# New''\<rparr>
   \<and> reads (snd (getStaticProps (matter (matter_spec ''---'')) \<lparr>id_p = ''os''\<rparr> rewritten_os_world))
       = [''/site/public/content/os.md'', ''/site/public/content/os.md'']"
proof -
  have r0: "fst (resolve (id_p \<lparr>id_p = ''os''\<rparr>) sample_world) = Obj (manifest_literal ! 1)"
    by (simp add: resolve_fst sample_manifest) (simp add: manifest_literal_def)
  have p: "matter_spec ''---'' ''# OS'' = Inr ''# OS''" "matter_spec ''---'' ''# New'' = Inr ''# New''"
    by (simp_all add: matter_spec_def split_metadata_def)
  have s1: "getStaticProps (matter (matter_spec ''---'')) \<lparr>id_p = ''os''\<rparr> sample_world
      = (Inr \<lparr>page = manifest_literal ! 1, content = ''# OS''\<rparr>,
         sample_world\<lparr>reads := [''/site/public/content/os.md''],
           cache := [''# OS'' \<mapsto> ''# OS'']\<rparr>)"
    by (simp add: getStaticProps_known [OF r0] sample_world_fields manifest_entries
        sample_files_def matter_def p)
  have w: "manifest rewritten_os_world = manifest_literal"
    "contentDir rewritten_os_world = ''/site/public/content''"
    "reads rewritten_os_world = [''/site/public/content/os.md'']"
    "files rewritten_os_world ''/site/public/content/os.md'' = Inr ''# New''"
    "cache rewritten_os_world = [''# OS'' \<mapsto> ''# OS'']"
    by (simp_all add: rewritten_os_world_def s1 sample_manifest sample_world_fields)
  have h: "fst (resolve (id_p \<lparr>id_p = ''os''\<rparr>) rewritten_os_world) = Obj (manifest_literal ! 1)"
    by (simp add: resolve_fst w) (simp add: manifest_literal_def)
  have ok: "cache_ok (matter_spec ''---'') (cache rewritten_os_world)"
    by (simp add: w cache_ok_def p)
  from load_reads_each_call [OF h, of "matter (matter_spec ''---'')" "matter_spec ''---''"] ok
  have t: "reads (snd (getStaticProps (matter (matter_spec ''---'')) \<lparr>id_p = ''os''\<rparr> rewritten_os_world))
        = reads rewritten_os_world @ [path_join [contentDir rewritten_os_world, file_d (manifest_literal ! 1)]]"
    and u: "fst (getStaticProps (matter (matter_spec ''---'')) \<lparr>id_p = ''os''\<rparr> rewritten_os_world) =
              (case files rewritten_os_world (path_join [contentDir rewritten_os_world, file_d (manifest_literal ! 1)]) of
                 Inl e \<Rightarrow> Inl e
               | Inr t \<Rightarrow>
                   (if t = [] then Inr \<lparr>page = manifest_literal ! 1, content = []\<rparr>
                    else (case matter_spec ''---'' t of
                            Inl e \<Rightarrow> Inl e
                          | Inr body \<Rightarrow> Inr \<lparr>page = manifest_literal ! 1, content = body\<rparr>)))"
    by blast+
  have t': "reads (snd (getStaticProps (matter (matter_spec ''---'')) \<lparr>id_p = ''os''\<rparr> rewritten_os_world))
       = [''/site/public/content/os.md'', ''/site/public/content/os.md'']"
    by (simp add: t w manifest_entries)
  have u': "fst (getStaticProps (matter (matter_spec ''---'')) \<lparr>id_p = ''os''\<rparr> rewritten_os_world)
       = Inr \<lparr>page = manifest_literal ! 1, content = ''# New''\<rparr>"
    by (simp add: u w manifest_entries p)
  show ?thesis
    using h ok t' u' by (simp only: s1 fst_conv simp_thms)
qed

section \<open>The metadata block\<close>

lemma split_at_Some: "split_at d s = Some (a, b) \<Longrightarrow> s = a @ d @ b"
proof (induction s arbitrary: a b)
  case Nil
  then show ?case by simp
next
  case (Cons c cs)
  show ?case
  proof (cases "take (length d) (c # cs) = d")
    case True
    with Cons.prems have "a = []" "b = drop (length d) (c # cs)" by simp_all
    moreover have "c # cs = take (length d) (c # cs) @ drop (length d) (c # cs)"
      by (simp only: append_take_drop_id)
    ultimately show ?thesis using True by simp
  next
    case False
    with Cons.prems obtain a' where "split_at d cs = Some (a', b)" "a = c # a'"
      by (auto split: option.splits)
    with Cons.IH [of a' b] show ?thesis by simp
  qed
qed

lemma split_metadata_Some:
  assumes "split_metadata d s = Some (block, body)"
  shows "s = block @ body \<and> d \<noteq> [] \<and> (\<exists>meta. block = d @ meta @ d)"
proof -
  from assms have d: "d \<noteq> []" "take (length d) s = d"
    by (auto simp: split_metadata_def split: if_splits)
  with assms obtain meta where m: "split_at d (drop (length d) s) = Some (meta, body)"
    "block = d @ meta @ d"
    by (auto simp: split_metadata_def split: option.splits)
  have "s = take (length d) s @ drop (length d) s" by (simp only: append_take_drop_id)
  also have "\<dots> = d @ meta @ d @ body" using d(2) split_at_Some [OF m(1)] by simp
  finally show ?thesis using m(2) d(1) by auto
qed

lemma matter_spec_empty: "matter_spec d [] = Inr []"
  by (simp add: matter_spec_def split_metadata_def)

text \<open>
  Claim C4. With the front-matter parsing as the specification describes it, the
  \<^verbatim>\<open>content\<close> that \<^verbatim>\<open>getStaticProps\<close> returns for a file with no metadata block is
  the file's full text; for a file that begins with a metadata block, the file is the
  block followed by the returned body, so exactly the block (the opening delimiter, the
  metadata, the closing delimiter) is stripped and the body is unchanged. This holds for
  the parsing used without a cache, and through the library's cache when the cache holds
  only what the parsing gives.
\<close>

theorem load_strips_metadata:
  assumes "fst (resolve (id_p ps) s) = Obj pg"
    and "files s (path_join [contentDir s, file_d pg]) = Inr t"
  shows "\<exists>c. fst (getStaticProps (uncached (matter_spec d)) ps s) = Inr \<lparr>page = pg, content = c\<rparr>
       \<and> (cache_ok (matter_spec d) (cache s) \<longrightarrow>
            fst (getStaticProps (matter (matter_spec d)) ps s) = Inr \<lparr>page = pg, content = c\<rparr>)
       \<and> (split_metadata d t = None \<longrightarrow> c = t)
       \<and> (\<forall>block body. split_metadata d t = Some (block, body)
             \<longrightarrow> t = block @ body \<and> c = body \<and> (\<exists>meta. block = d @ meta @ d))"
proof -
  let ?c = "case split_metadata d t of None \<Rightarrow> t | Some (block, body) \<Rightarrow> body"
  have g: "fst (getStaticProps (uncached (matter_spec d)) ps s) = Inr \<lparr>page = pg, content = ?c\<rparr>"
    using getStaticProps_known [OF assms(1), of "uncached (matter_spec d)"] assms(2)
    by (simp add: matter_spec_def uncached_def)
  have m: "cache_ok (matter_spec d) (cache s) \<longrightarrow>
            fst (getStaticProps (matter (matter_spec d)) ps s) = Inr \<lparr>page = pg, content = ?c\<rparr>"
  proof
    assume ok: "cache_ok (matter_spec d) (cache s)"
    obtain r c' where mr: "matter (matter_spec d) t (cache s) = (r, c')"
      by (cases "matter (matter_spec d) t (cache s)")
    with matter_cache_ok [OF ok, of t] have "r = matter_spec d t"
      by (simp add: matter_spec_empty)
    then have "r = Inr ?c" by (simp add: matter_spec_def)
    with mr show "fst (getStaticProps (matter (matter_spec d)) ps s) = Inr \<lparr>page = pg, content = ?c\<rparr>"
      using getStaticProps_known [OF assms(1), of "matter (matter_spec d)"] assms(2) by simp
  qed
  have n: "split_metadata d t = None \<longrightarrow> ?c = t" by simp
  have b: "\<forall>block body. split_metadata d t = Some (block, body) \<longrightarrow> t = block @ body \<and> ?c = body
      \<and> (\<exists>meta. block = d @ meta @ d)"
    using split_metadata_Some [of d t] by simp
  show ?thesis
    by (rule exI [of _ ?c]) (intro conjI g m n b)
qed

text \<open>
  On the sample site \<^verbatim>\<open>network.md\<close> begins with a block delimited by \<^verbatim>\<open>---\<close>,
  which is stripped, and \<^verbatim>\<open>os.md\<close> has no block and is returned whole.
\<close>

theorem load_strips_metadata_witness:
  "fst (resolve (id_p \<lparr>id_p = ''network''\<rparr>) sample_world) = Obj (manifest_literal ! 0)
   \<and> files sample_world (path_join [contentDir sample_world, file_d (manifest_literal ! 0)])
       = Inr ''---title: net---# Network''
   \<and> cache_ok (matter_spec ''---'') (cache sample_world)
   \<and> split_metadata ''---'' ''---title: net---# Network'' = Some (''---title: net---'', ''# Network'')
   \<and> fst (getStaticProps (uncached (matter_spec ''---'')) \<lparr>id_p = ''network''\<rparr> sample_world)
       = Inr \<lparr>page = manifest_literal ! 0, content = ''# Network''\<rparr>
   \<and> fst (getStaticProps (matter (matter_spec ''---'')) \<lparr>id_p = ''network''\<rparr> sample_world)
       = Inr \<lparr>page = manifest_literal ! 0, content = ''# Network''\<rparr>
   \<and> fst (resolve (id_p \<lparr>id_p = ''os''\<rparr>) sample_world) = Obj (manifest_literal ! 1)
   \<and> files sample_world (path_join [contentDir sample_world, file_d (manifest_literal ! 1)])
       = Inr ''# OS''
   \<and> split_metadata ''---'' ''# OS'' = None
   \<and> fst (getStaticProps (uncached (matter_spec ''---'')) \<lparr>id_p = ''os''\<rparr> sample_world)
       = Inr \<lparr>page = manifest_literal ! 1, content = ''# OS''\<rparr>"
proof -
  have h1: "fst (resolve (id_p \<lparr>id_p = ''network''\<rparr>) sample_world) = Obj (manifest_literal ! 0)"
    by (simp add: resolve_fst sample_manifest) (simp add: manifest_literal_def)
  have h2: "files sample_world (path_join [contentDir sample_world, file_d (manifest_literal ! 0)])
       = Inr ''---title: net---# Network''"
    by (simp add: sample_world_fields manifest_literal_def sample_files_def)
  have ok: "cache_ok (matter_spec ''---'') (cache sample_world)"
    by (simp add: sample_world_fields cache_ok_empty)
  have sp: "split_metadata ''---'' ''---title: net---# Network'' = Some (''---title: net---'', ''# Network'')"
    by (simp add: split_metadata_def)
  from load_strips_metadata [OF h1 h2, of "''---''"] obtain c where
    c: "fst (getStaticProps (uncached (matter_spec ''---'')) \<lparr>id_p = ''network''\<rparr> sample_world)
          = Inr \<lparr>page = manifest_literal ! 0, content = c\<rparr>"
    and cm: "cache_ok (matter_spec ''---'') (cache sample_world) \<longrightarrow>
          fst (getStaticProps (matter (matter_spec ''---'')) \<lparr>id_p = ''network''\<rparr> sample_world)
          = Inr \<lparr>page = manifest_literal ! 0, content = c\<rparr>"
    and b: "\<forall>block body. split_metadata ''---'' ''---title: net---# Network'' = Some (block, body)
       \<longrightarrow> ''---title: net---# Network'' = block @ body \<and> c = body
          \<and> (\<exists>meta. block = ''---'' @ meta @ ''---'')"
    by (elim exE conjE)
  from b sp have cn: "c = ''# Network''" by blast
  from cm ok have c2: "fst (getStaticProps (matter (matter_spec ''---'')) \<lparr>id_p = ''network''\<rparr> sample_world)
          = Inr \<lparr>page = manifest_literal ! 0, content = c\<rparr>" by blast
  have k1: "fst (resolve (id_p \<lparr>id_p = ''os''\<rparr>) sample_world) = Obj (manifest_literal ! 1)"
    by (simp add: resolve_fst sample_manifest) (simp add: manifest_literal_def)
  have k2: "files sample_world (path_join [contentDir sample_world, file_d (manifest_literal ! 1)])
       = Inr ''# OS''"
    by (simp add: sample_world_fields manifest_literal_def sample_files_def)
  have sn: "split_metadata ''---'' ''# OS'' = None"
    by (simp add: split_metadata_def)
  from load_strips_metadata [OF k1 k2, of "''---''"] obtain c' where
    c': "fst (getStaticProps (uncached (matter_spec ''---'')) \<lparr>id_p = ''os''\<rparr> sample_world)
          = Inr \<lparr>page = manifest_literal ! 1, content = c'\<rparr>"
    and n: "split_metadata ''---'' ''# OS'' = None \<longrightarrow> c' = ''# OS''"
    by (elim exE conjE)
  from n sn have co: "c' = ''# OS''" by blast
  show ?thesis
    using h1 h2 ok sp k1 k2 sn by (simp only: c c2 c' cn co simp_thms)
qed

section \<open>Unknown ids\<close>

text \<open>
  The claim C2 of the specification says that \<open>resolve\<close> fails with NotFoundError for an
  id outside the manifest. It does not: for the id \<^verbatim>\<open>unknown\<close> on the sample site the
  lookup of line 52 returns \<^verbatim>\<open>undefined\<close> without failing, and \<^verbatim>\<open>getStaticProps\<close>
  (here with a parser that returns the text as it is, which is never reached) then fails at
  line 53 with a \<^verbatim>\<open>TypeError\<close>, not with NotFoundError.
\<close>

theorem resolve_unknown_counterexample:
  "''unknown'' \<notin> set (listPageIds sample_world)
   \<and> fst (resolve ''unknown'' sample_world) = Undefined
   \<and> fst (getStaticProps (uncached Inr) \<lparr>id_p = ''unknown''\<rparr> sample_world) = Inl TypeError
   \<and> fst (getStaticProps (uncached Inr) \<lparr>id_p = ''unknown''\<rparr> sample_world) \<noteq> Inl NotFoundError"
  by (simp add: listPageIds_map resolve_def getStaticProps_def sample_manifest manifest_literal_def)

text \<open>
  Claim C2, amended. \<open>resolve\<close> is total over the manifest's ids and idempotent there:
  for every id of the manifest it returns an entry of the manifest whose id is that id, and
  resolving that entry's id gives the same result. For an id outside the manifest the
  lookup returns \<^verbatim>\<open>undefined\<close>, and \<^verbatim>\<open>getStaticProps\<close> fails with a \<^verbatim>\<open>TypeError\<close>
  (reading \<^verbatim>\<open>file\<close> of \<^verbatim>\<open>undefined\<close>) before any file is read.
\<close>

theorem resolve_total_on_ids:
  "(i \<in> set (listPageIds s) \<longrightarrow>
      (\<exists>d. fst (resolve i s) = Obj d \<and> d \<in> set (manifest s) \<and> id_d d = i
           \<and> resolve (id_d d) s = resolve i s))
   \<and> (i \<notin> set (listPageIds s) \<longrightarrow>
        fst (resolve i s) = Undefined \<and> getStaticProps mt \<lparr>id_p = i\<rparr> s = (Inl TypeError, s))"
proof (intro conjI impI)
  assume "i \<in> set (listPageIds s)"
  then obtain x where x: "x \<in> set (manifest s)" "id_d x = i"
    by (auto simp: listPageIds_map)
  then have "find_js (\<lambda>m. id_d m = i) (manifest s) \<noteq> Undefined"
    by (auto simp: find_js_Undefined_iff)
  then obtain d where d: "find_js (\<lambda>m. id_d m = i) (manifest s) = Obj d"
    using find_js_not_Null [of "\<lambda>m. id_d m = i" "manifest s"]
    by (cases "find_js (\<lambda>m. id_d m = i) (manifest s)") simp_all
  from find_js_ObjD [OF d] have "d \<in> set (manifest s)" "id_d d = i" by simp_all
  with d have "fst (resolve i s) = Obj d \<and> d \<in> set (manifest s) \<and> id_d d = i
           \<and> resolve (id_d d) s = resolve i s"
    by (simp add: resolve_def)
  then show "\<exists>d. fst (resolve i s) = Obj d \<and> d \<in> set (manifest s) \<and> id_d d = i
           \<and> resolve (id_d d) s = resolve i s" ..
next
  assume "i \<notin> set (listPageIds s)"
  then have "\<forall>x \<in> set (manifest s). id_d x \<noteq> i"
    by (auto simp: listPageIds_map)
  then have u: "fst (resolve i s) = Undefined"
    by (simp add: resolve_fst find_js_Undefined_iff)
  then show "fst (resolve i s) = Undefined" .
  from u show "getStaticProps mt \<lparr>id_p = i\<rparr> s = (Inl TypeError, s)"
    by (simp add: getStaticProps_unknown)
qed

theorem resolve_total_on_ids_witness:
  "''os'' \<in> set (listPageIds sample_world)
   \<and> fst (resolve ''os'' sample_world) = Obj (manifest_literal ! 1)
   \<and> id_d (manifest_literal ! 1) = ''os''
   \<and> ''unknown'' \<notin> set (listPageIds sample_world)
   \<and> getStaticProps (uncached Inr) \<lparr>id_p = ''unknown''\<rparr> sample_world
       = (Inl TypeError, sample_world)"
proof -
  have h1: "''os'' \<in> set (listPageIds sample_world)"
    by (simp add: listPageIds_map sample_manifest manifest_literal_def)
  have h2: "''unknown'' \<notin> set (listPageIds sample_world)"
    by (simp add: listPageIds_map sample_manifest manifest_literal_def)
  have r: "fst (resolve ''os'' sample_world) = Obj (manifest_literal ! 1)"
    using resolve_total_on_ids [of "''os''" sample_world "uncached Inr"] h1
    by (simp add: resolve_fst sample_manifest) (simp add: manifest_literal_def)
  have u: "getStaticProps (uncached Inr) \<lparr>id_p = ''unknown''\<rparr> sample_world
       = (Inl TypeError, sample_world)"
    using resolve_total_on_ids [of "''unknown''" sample_world "uncached Inr"] h2 by simp
  show ?thesis using h1 h2 r u by (simp add: manifest_literal_def)
qed

end
